theory Spec2Isabelle
  imports Complex_Main
begin

section \<open>Candidate/job matching engine (matching\_system.py)\<close>

text \<open>
  The development embeds the class \<open>MatchingSystem\<close> of \<^verbatim>\<open>src/matching_system.py\<close>.
  Conventions of the embedding:
  \<^item> Python \<open>str\<close> is \<open>string\<close>; only the ASCII part of \<open>lower\<close>, \<open>split\<close>, \<open>\d\<close> and
    \<open>\s\<close> is modelled (all other characters are neither letters, digits nor blanks).
  \<^item> Python \<open>float\<close> is \<open>real\<close>: scores are computed exactly, without binary rounding.
  \<^item> Python \<open>int\<close> is \<open>int\<close>; \<open>int(str)\<close> has no limit on the number of digits.
  \<^item> A raised exception is the left injection of a sum; a \<open>try/except\<close> is a case
    distinction on it.
  \<^item> The external capabilities (spaCy entity recogniser, sentence encoder, geocoder,
    geodesic distance, similarity of two embeddings) are fields of the system object that
    the functions take as a parameter.
\<close>

subsection \<open>Strings\<close>

definition is_digit :: "char \<Rightarrow> bool" where
  "is_digit c = (let n = (of_char c :: nat) in 48 \<le> n \<and> n \<le> 57)"

text \<open>Blank characters of \<open>str.split()\<close> and of \<open>\s\<close>: TAB..CR, FS..US and the space.\<close>

definition is_space :: "char \<Rightarrow> bool" where
  "is_space c = (let n = (of_char c :: nat) in (9 \<le> n \<and> n \<le> 13) \<or> (28 \<le> n \<and> n \<le> 32))"

definition lower_char :: "char \<Rightarrow> char" where
  "lower_char c = (let n = (of_char c :: nat) in if 65 \<le> n \<and> n \<le> 90 then char_of (n + 32) else c)"

text \<open>\<open>s.lower()\<close>\<close>

definition lower :: "string \<Rightarrow> string" where
  "lower s = map lower_char s"

fun starts_with :: "string \<Rightarrow> string \<Rightarrow> bool" where
  "starts_with [] s = True"
| "starts_with (p # ps) [] = False"
| "starts_with (p # ps) (x # xs) = (p = x \<and> starts_with ps xs)"

text \<open>\<open>sub in s\<close> on strings: \<open>sub\<close> occurs in \<open>s\<close> as a contiguous substring.\<close>

fun str_in :: "string \<Rightarrow> string \<Rightarrow> bool" where
  "str_in sub [] = (sub = [])"
| "str_in sub (x # xs) = (starts_with sub (x # xs) \<or> str_in sub xs)"

text \<open>\<open>s.split()\<close>: the maximal runs of non-blank characters, in order.\<close>

fun split_acc :: "string \<Rightarrow> string \<Rightarrow> string list" where
  "split_acc w [] = (if w = [] then [] else [w])"
| "split_acc w (x # xs) =
     (if is_space x then (if w = [] then split_acc [] xs else w # split_acc [] xs)
      else split_acc (w @ [x]) xs)"

definition split :: "string \<Rightarrow> string list" where
  "split s = split_acc [] s"

subsection \<open>Exceptions and integer conversion\<close>

datatype py_error = ValueError | TypeError | ZeroDivisionError | GeocoderServiceError

definition digit_val :: "char \<Rightarrow> nat" where
  "digit_val c = of_char c - 48"

definition decimal :: "string \<Rightarrow> nat" where
  "decimal s = foldl (\<lambda>a c. 10 * a + digit_val c) 0 s"

text \<open>
  \<open>int(s)\<close> on a string: the decimal value of a non-empty run of digits, \<open>ValueError\<close>
  otherwise. (Python also accepts a sign, surrounding blanks and underscores; every string
  converted by this program is either a run captured by \<open>\d+\<close> or the digits left by
  \<open>re.sub\<close>, so those forms do not arise.)
\<close>

definition py_int :: "string \<Rightarrow> py_error + int" where
  "py_int s = (if s \<noteq> [] \<and> list_all is_digit s then Inr (int (decimal s)) else Inl ValueError)"

text \<open>\<open>int(match.group(n))\<close>: a group that took no part in the match is \<open>None\<close>, and
  \<open>int(None)\<close> raises \<open>TypeError\<close>.\<close>

definition int_of_group :: "string option \<Rightarrow> py_error + int" where
  "int_of_group g = (case g of None \<Rightarrow> Inl TypeError | Some s \<Rightarrow> py_int s)"

text \<open>\<open>a / b\<close> on integers.\<close>

definition py_truediv :: "int \<Rightarrow> int \<Rightarrow> py_error + real" where
  "py_truediv a b = (if b = 0 then Inl ZeroDivisionError else Inr (real_of_int a / real_of_int b))"

subsection \<open>Regular expressions (the fragment of \<open>re\<close> the program uses)\<close>

text \<open>
  A backtracking matcher in the order of Python's \<open>re\<close>: \<open>ms r (s, c)\<close> lists, most
  preferred first, every way \<open>r\<close> can match a prefix of \<open>s\<close>, as the rest of the string and
  the groups captured so far. Greedy operators list the longer alternative first, the lazy
  star the shorter one. \<open>Dot\<close> is \<open>.\<close> (any character but the newline), \<open>Grp n r\<close> is the
  \<open>n\<close>-th capturing group.
\<close>

datatype regex = Eps | Chr char | Digit | Space | Dot
  | Cat regex regex | Opt regex | Star regex | LazyStar regex | Grp nat regex

type_synonym caps = "nat \<rightharpoonup> string"

fun ms :: "regex \<Rightarrow> string \<times> caps \<Rightarrow> (string \<times> caps) list" where
  "ms Eps st = [st]"
| "ms (Chr a) (s, c) = (case s of [] \<Rightarrow> [] | x # xs \<Rightarrow> if x = a then [(xs, c)] else [])"
| "ms Digit (s, c) = (case s of [] \<Rightarrow> [] | x # xs \<Rightarrow> if is_digit x then [(xs, c)] else [])"
| "ms Space (s, c) = (case s of [] \<Rightarrow> [] | x # xs \<Rightarrow> if is_space x then [(xs, c)] else [])"
| "ms Dot (s, c) = (case s of [] \<Rightarrow> [] | x # xs \<Rightarrow> if x \<noteq> CHR 0x0A then [(xs, c)] else [])"
| "ms (Cat r1 r2) st = concat (map (ms r2) (ms r1 st))"
| "ms (Opt r) st = ms r st @ [st]"
| "ms (Star r) (s, c) =
     concat (map (\<lambda>(s', c'). if length s' < length s then ms (Star r) (s', c') else [])
                 (ms r (s, c))) @ [(s, c)]"
| "ms (LazyStar r) (s, c) =
     (s, c) # concat (map (\<lambda>(s', c'). if length s' < length s then ms (LazyStar r) (s', c') else [])
                 (ms r (s, c)))"
| "ms (Grp n r) (s, c) =
     map (\<lambda>(s', c'). (s', c'(n \<mapsto> take (length s - length s') s))) (ms r (s, c))"

declare ms.simps(8) [simp del]
declare ms.simps(9) [simp del]

text \<open>\<open>re.search(r, s)\<close>: the preferred match at the leftmost position that has one; the
  result is the match object, read through its groups.\<close>

fun re_search :: "regex \<Rightarrow> string \<Rightarrow> caps option" where
  "re_search r s =
     (case ms r (s, Map.empty) of
        (_, c) # _ \<Rightarrow> Some c
      | [] \<Rightarrow> (case s of [] \<Rightarrow> None | _ # t \<Rightarrow> re_search r t))"

declare re_search.simps [simp del]

abbreviation Plus :: "regex \<Rightarrow> regex" where
  "Plus r \<equiv> Cat r (Star r)"


fun seq :: "regex list \<Rightarrow> regex" where
  "seq [] = Eps"
| "seq (r # rs) = Cat r (seq rs)"

subsection \<open>Experience extractor\<close>





subsection \<open>Salary matcher\<close>

text \<open>\<^verbatim>\<open>(\d+).*?(\d+)\<close>\<close>

definition salary_pattern :: regex where
  "salary_pattern = seq [Grp 1 (Plus Digit), LazyStar Dot, Grp 2 (Plus Digit)]"

text \<open>The body of the \<open>try\<close> block; \<open>None\<close> stands for falling through the \<open>if
  salary_match\<close> to the final \<open>return 0.5\<close>.\<close>

definition salary_try :: "string \<Rightarrow> string \<Rightarrow> py_error + real option" where
  "salary_try candidate_expected job_salary_range =
     (case re_search salary_pattern (filter (\<lambda>c. c \<noteq> CHR '','') job_salary_range) of
        None \<Rightarrow> Inr None
      | Some m \<Rightarrow>
         (case int_of_group (m 1) of
            Inl e \<Rightarrow> Inl e
          | Inr min_salary \<Rightarrow>
             (case int_of_group (m 2) of
                Inl e \<Rightarrow> Inl e
              | Inr max_salary \<Rightarrow>
                 (case py_int (filter is_digit candidate_expected) of
                    Inl e \<Rightarrow> Inl e
                  | Inr candidate_salary \<Rightarrow>
                     if min_salary \<le> candidate_salary \<and> candidate_salary \<le> max_salary
                     then Inr (Some 1)
                     else if candidate_salary < min_salary
                     then map_sum id Some (py_truediv candidate_salary min_salary)
                     else map_sum id Some (py_truediv max_salary candidate_salary)))))"

definition calculate_salary_match :: "string \<Rightarrow> string \<Rightarrow> real" where
  "calculate_salary_match candidate_expected job_salary_range =
     (if candidate_expected = [] \<or> job_salary_range = [] then 0.5
      else case salary_try candidate_expected job_salary_range of
             Inl e \<Rightarrow> 0.5
           | Inr (Some v) \<Rightarrow> v
           | Inr None \<Rightarrow> 0.5)"

subsection \<open>The system and its capabilities\<close>

type_synonym coord = "real \<times> real"

text \<open>
  The object \<open>self\<close>. Its fields are the external capabilities:
  \<^item> \<open>nlp\<close>: the entities of a text, each with its label (\<open>doc.ents\<close>);
  \<^item> \<open>sentence_model\<close>: the embedding of a text (\<open>encode\<close>, each text of the batch on
    its own);
  \<^item> \<open>geolocator\<close>: \<open>geocode\<close>, a call to a network service: it reads and changes a state
    \<open>'g\<close> of the outside world, and either raises or returns a position or \<open>None\<close>;
  \<^item> \<open>geodesic\<close>: the distance in kilometres between two positions, or an exception
    (geopy rejects a latitude out of range);
  \<^item> \<open>cosine_similarity\<close>: the similarity of two embeddings (scikit-learn).
\<close>

record 'g matching_system =
  nlp :: "string \<Rightarrow> (string \<times> string) list"
  sentence_model :: "string \<Rightarrow> real list"
  geolocator :: "'g \<Rightarrow> string \<Rightarrow> (py_error + coord option) \<times> 'g"
  geodesic :: "coord \<Rightarrow> coord \<Rightarrow> py_error + real"
  cosine_similarity :: "real list \<Rightarrow> real list \<Rightarrow> real"


subsection \<open>Skill extractor\<close>


subsection \<open>Location scorer\<close>

text \<open>The string comparison of the \<open>else\<close> branch and the one of the \<open>except\<close> branch.\<close>

definition fallback_score :: "string \<Rightarrow> string \<Rightarrow> real" where
  "fallback_score candidate_location job_location =
     (if lower candidate_location = lower job_location then 1.0
      else if list_ex (\<lambda>part. str_in part (lower job_location)) (split (lower candidate_location))
      then 0.7
      else 0.3)"

definition except_score :: "string \<Rightarrow> string \<Rightarrow> real" where
  "except_score candidate_location job_location =
     (if lower candidate_location = lower job_location then 1.0 else 0.3)"

definition band :: "real \<Rightarrow> real" where
  "band distance =
     (if distance < 50 then 1.0
      else if distance < 100 then 0.8
      else if distance < 500 then 0.5
      else 0.2)"

text \<open>The score, and the state of the geocoding service after the call.\<close>

definition calculate_location_score ::
  "'g matching_system \<Rightarrow> 'g \<Rightarrow> string \<Rightarrow> string \<Rightarrow> real \<times> 'g" where
  "calculate_location_score self g candidate_location job_location =
     (if candidate_location = [] \<or> job_location = [] then (0.5, g)
      else if str_in ''remote'' (lower candidate_location) \<or> str_in ''remote'' (lower job_location)
      then (1.0, g)
      else
        (case geolocator self g candidate_location of
           (Inl e, g1) \<Rightarrow> (except_score candidate_location job_location, g1)
         | (Inr loc1, g1) \<Rightarrow>
            (case geolocator self g1 job_location of
               (Inl e, g2) \<Rightarrow> (except_score candidate_location job_location, g2)
             | (Inr loc2, g2) \<Rightarrow>
                (case (loc1, loc2) of
                   (Some p1, Some p2) \<Rightarrow>
                     (case geodesic self p1 p2 of
                        Inl e \<Rightarrow> (except_score candidate_location job_location, g2)
                      | Inr distance \<Rightarrow> (band distance, g2))
                 | _ \<Rightarrow> (fallback_score candidate_location job_location, g2)))))"

subsection \<open>Skills matcher\<close>

definition calculate_skills_match :: "string list \<Rightarrow> string list \<Rightarrow> real" where
  "calculate_skills_match candidate_skills required_skills =
     (if candidate_skills = [] \<or> required_skills = [] then 0.0
      else
        let candidate_set = set (map lower candidate_skills);
            required_set = set (map lower required_skills)
        in if required_set = {} then 1.0
           else real (card (candidate_set \<inter> required_set)) / real (card required_set))"

subsection \<open>Semantic similarity\<close>

text \<open>What \<open>sklearn.metrics.pairwise.cosine_similarity\<close> computes on two vectors: both are
  divided by their Euclidean norm (a zero norm counts as 1), then multiplied. It is the
  intended value of the field \<open>cosine_similarity\<close>.\<close>

definition l2_norm :: "real list \<Rightarrow> real" where
  "l2_norm v = sqrt (sum_list (map (\<lambda>x. x * x) v))"

definition normalize :: "real list \<Rightarrow> real list" where
  "normalize v = (let n = l2_norm v in map (\<lambda>x. x / (if n = 0 then 1 else n)) v)"

definition cosine :: "real list \<Rightarrow> real list \<Rightarrow> real" where
  "cosine u v = sum_list (map (\<lambda>(x, y). x * y) (zip (normalize u) (normalize v)))"


subsection \<open>Aggregation and ranking\<close>



record job_data =
  job_title :: string
  job_description :: string
  job_required_skills :: string
  job_location :: string
  job_salary_range :: string
  job_experience_required :: string












subsection \<open>Example systems\<close>

text \<open>
  Concrete capabilities for the examples below: the entity recogniser finds nothing, the
  distance of two positions is 0 km, the similarity is \<open>cosine\<close>. The state of the
  geocoding service is the number of calls it has received.
\<close>

definition example_system ::
  "(string \<Rightarrow> py_error + coord option) \<Rightarrow> (string \<Rightarrow> real list) \<Rightarrow> nat matching_system" where
  "example_system geo enc =
     \<lparr> nlp = (\<lambda>text. []),
       sentence_model = enc,
       geolocator = (\<lambda>g query. (geo query, Suc g)),
       geodesic = (\<lambda>p1 p2. Inr 0),
       cosine_similarity = cosine \<rparr>"

text \<open>A geocoder that resolves every query, one that resolves none, one that always raises.\<close>

definition resolving_system :: "nat matching_system" where
  "resolving_system = example_system (\<lambda>query. Inr (Some (0, 0))) (\<lambda>text. [1])"









subsection \<open>Predicates used in the proofs\<close>




section \<open>Properties of the matcher\<close>











section \<open>Experience extractor\<close>

















section \<open>Location scorer\<close>

lemma band_values: "band d \<in> {0.2, 0.5, 0.8, 1.0}"
  by (simp add: band_def)

lemma fallback_score_values: "fallback_score c j \<in> {0.3, 0.7, 1.0}"
  by (simp add: fallback_score_def)

lemma except_score_values: "except_score c j \<in> {0.3, 1.0}"
  by (simp add: except_score_def)

lemma location_score_values:
  "fst (calculate_location_score self g c j) \<in> {0.2, 0.3, 0.5, 0.7, 0.8, 1.0}"
proof -
  have b: "\<And>d. band d \<in> {0.2, 0.3, 0.5, 0.7, 0.8, 1.0}" using band_values by fastforce
  have f: "fallback_score c j \<in> {0.2, 0.3, 0.5, 0.7, 0.8, 1.0}" using fallback_score_values[of c j] by fastforce
  have e: "except_score c j \<in> {0.2, 0.3, 0.5, 0.7, 0.8, 1.0}" using except_score_values[of c j] by fastforce
  show ?thesis
    unfolding calculate_location_score_def
    using b f e by (simp split: prod.splits sum.splits option.splits)
qed


text \<open>
  Claim C10. Whatever the two location strings and whatever the geocoding service does
  (both lookups resolve, one does not, or a call raises), the location score is one of
  0.2, 0.3, 0.5, 0.7, 0.8 and 1.0, hence within [0, 1].
\<close>

theorem calculate_location_score_range:
  "fst (calculate_location_score self g cand_loc job_loc) \<in> {0.2, 0.3, 0.5, 0.7, 0.8, 1.0}
   \<and> 0 \<le> fst (calculate_location_score self g cand_loc job_loc)
   \<and> fst (calculate_location_score self g cand_loc job_loc) \<le> 1"
  using location_score_values[of self g cand_loc job_loc] by auto

lemma remote_in_Remote: "str_in ''remote'' (lower ''Remote'')"
  by code_simp

lemma location_missing:
  "cand_loc = [] \<or> job_loc = [] \<Longrightarrow> calculate_location_score self g cand_loc job_loc = (0.5, g)"
  by (simp add: calculate_location_score_def)

lemma location_remote:
  "cand_loc \<noteq> [] \<Longrightarrow> job_loc \<noteq> [] \<Longrightarrow>
   str_in ''remote'' (lower cand_loc) \<or> str_in ''remote'' (lower job_loc) \<Longrightarrow>
   calculate_location_score self g cand_loc job_loc = (1, g)"
  by (simp add: calculate_location_score_def)

text \<open>
  Claim C9. The cases are checked in a fixed order. When either location string is missing
  the score is 0.5; otherwise, when either string contains \<open>remote\<close> (in any case), the
  score is 1.0. In both cases the geocoding service is not called: its state is returned
  as it was. In particular a job in \<open>Remote\<close> and a candidate in \<open>Berlin\<close> score 1.0
  under every geocoder.
\<close>

theorem calculate_location_score_order:
  "(cand_loc = [] \<or> job_loc = [] \<longrightarrow>
      calculate_location_score self g cand_loc job_loc = (0.5, g))
   \<and> (cand_loc \<noteq> [] \<and> job_loc \<noteq> []
        \<and> (str_in ''remote'' (lower cand_loc) \<or> str_in ''remote'' (lower job_loc)) \<longrightarrow>
      calculate_location_score self g cand_loc job_loc = (1, g))
   \<and> calculate_location_score self g ''Berlin'' ''Remote'' = (1, g)"
proof (intro conjI impI)
  assume "cand_loc = [] \<or> job_loc = []"
  then show "calculate_location_score self g cand_loc job_loc = (0.5, g)"
    by (rule location_missing)
next
  assume "cand_loc \<noteq> [] \<and> job_loc \<noteq> []
        \<and> (str_in ''remote'' (lower cand_loc) \<or> str_in ''remote'' (lower job_loc))"
  then show "calculate_location_score self g cand_loc job_loc = (1, g)"
    using location_remote[of cand_loc job_loc self g] by (elim conjE) (rule location_remote)
next
  have r: "str_in ''remote'' (lower ''Berlin'') \<or> str_in ''remote'' (lower ''Remote'')"
    using remote_in_Remote by (rule disjI2)
  have b: "''Berlin'' \<noteq> []" by simp
  have m: "''Remote'' \<noteq> []" by simp
  from b m r show "calculate_location_score self g ''Berlin'' ''Remote'' = (1, g)"
    by (rule location_remote)
qed

theorem calculate_location_score_order_witness:
  "calculate_location_score resolving_system 0 [] ''Paris'' = (0.5, 0)
   \<and> str_in ''remote'' (lower ''Remote (EU)'')
   \<and> calculate_location_score resolving_system 0 ''Remote (EU)'' ''Paris'' = (1, 0)
   \<and> calculate_location_score resolving_system 0 ''Berlin'' ''Remote'' = (1, 0)
   \<and> snd (calculate_location_score resolving_system 0 ''Berlin'' ''Paris'') = 2"
proof -
  note T = calculate_location_score_order[of _ _ resolving_system 0]
  have r: "str_in ''remote'' (lower ''Remote (EU)'')" by code_simp
  have n1: "str_in ''remote'' (lower ''Berlin'') = False" by code_simp
  have n2: "str_in ''remote'' (lower ''Paris'') = False" by code_simp
  have calls: "snd (calculate_location_score resolving_system 0 ''Berlin'' ''Paris'') = 2"
    unfolding calculate_location_score_def n1 n2
    by (simp add: resolving_system_def example_system_def)
  have a: "calculate_location_score resolving_system 0 [] ''Paris'' = (0.5, 0)"
    using T[of "[]" "''Paris''", THEN conjunct1] by simp
  have "''Remote (EU)'' \<noteq> [] \<and> ''Paris'' \<noteq> []
        \<and> (str_in ''remote'' (lower ''Remote (EU)'') \<or> str_in ''remote'' (lower ''Paris''))"
    using r by simp
  with T[of "''Remote (EU)''" "''Paris''", THEN conjunct2, THEN conjunct1]
  have b: "calculate_location_score resolving_system 0 ''Remote (EU)'' ''Paris'' = (1, 0)"
    by (rule mp)
  have c: "calculate_location_score resolving_system 0 ''Berlin'' ''Remote'' = (1, 0)"
    using T[of "[]" "[]", THEN conjunct2, THEN conjunct2] .
  from a r b c calls show ?thesis by (intro conjI)
qed

subsection \<open>When geocoding does not yield two positions\<close>




lemma location_distance_raises:
  assumes "cand_loc \<noteq> []" "job_loc \<noteq> []"
    "\<not> str_in ''remote'' (lower cand_loc)" "\<not> str_in ''remote'' (lower job_loc)"
    "geolocator self g cand_loc = (Inr (Some p1), g1)"
    "geolocator self g1 job_loc = (Inr (Some p2), g2)"
    "geodesic self p1 p2 = Inl e"
  shows "calculate_location_score self g cand_loc job_loc = (except_score cand_loc job_loc, g2)"
  using assms by (simp add: calculate_location_score_def)







section \<open>Skills matcher\<close>

lemma required_set_nonempty: "required_skills \<noteq> [] \<Longrightarrow> set (map lower required_skills) \<noteq> {}"
  by simp

lemma skills_ratio_le_1:
  assumes "R \<noteq> {}" "finite R"
  shows "real (card (C \<inter> R)) / real (card R) \<le> 1"
proof -
  from assms have pos: "0 < card R" by (simp add: card_gt_0_iff)
  have "card (C \<inter> R) \<le> card R" using assms(2) by (simp add: card_mono)
  with pos show ?thesis by simp
qed

lemma skills_match_missing:
  "cs = [] \<or> rs = [] \<Longrightarrow> calculate_skills_match cs rs = 0"
  by (simp add: calculate_skills_match_def)

lemma skills_match_ratio:
  "cs \<noteq> [] \<Longrightarrow> rs \<noteq> [] \<Longrightarrow>
   calculate_skills_match cs rs =
     real (card (set (map lower cs) \<inter> set (map lower rs))) / real (card (set (map lower rs)))"
  by (simp add: calculate_skills_match_def Let_def)

lemma skills_match_bounds: "0 \<le> calculate_skills_match cs rs \<and> calculate_skills_match cs rs \<le> 1"
proof (cases "cs = [] \<or> rs = []")
  case True
  then show ?thesis by (simp add: skills_match_missing)
next
  case False
  then have ne: "cs \<noteq> []" "rs \<noteq> []" by simp_all
  have "real (card (set (map lower cs) \<inter> set (map lower rs))) / real (card (set (map lower rs))) \<le> 1"
    by (rule skills_ratio_le_1) (use ne in simp_all)
  then show ?thesis by (simp add: skills_match_ratio[OF ne])
qed

lemma lower_Python: "lower ''Python'' = ''python''" by code_simp
lemma lower_AWS: "lower ''AWS'' = ''aws''" by code_simp
lemma lower_sql: "lower ''sql'' = ''sql''" by code_simp
lemma lower_python: "lower ''python'' = ''python''" by code_simp
lemma lower_java: "lower ''java'' = ''java''" by code_simp

lemma example_sets:
  "set (map lower [''Python'', ''AWS'', ''sql'']) = {''python'', ''aws'', ''sql''}"
  "set (map lower [''python'', ''sql'', ''java'']) = {''python'', ''sql'', ''java''}"
  by (simp_all add: lower_Python lower_AWS lower_sql lower_python lower_java)

lemma example_inter:
  "{''python'', ''aws'', ''sql''} \<inter> {''python'', ''sql'', ''java''} = {''python'', ''sql''}"
  by auto

text \<open>
  Claim C7. \<open>calculate_skills_match\<close> returns 0.0 when either raw skill list is empty;
  it returns 1.0 when the raw lists are non-empty but the lowercased required set is empty;
  otherwise it returns the size of the intersection of the two lowercased sets divided by
  the size of the required set, which never exceeds 1.0 whatever else the candidate knows.
  (The lowercased set of a non-empty list is never empty, so the second case cannot arise
  for lists; this is the last conjunct.)
\<close>

theorem calculate_skills_match_cases:
  "(cs = [] \<or> rs = [] \<longrightarrow> calculate_skills_match cs rs = 0)
   \<and> (cs \<noteq> [] \<and> rs \<noteq> [] \<and> set (map lower rs) = {} \<longrightarrow> calculate_skills_match cs rs = 1)
   \<and> (cs \<noteq> [] \<and> rs \<noteq> [] \<and> set (map lower rs) \<noteq> {} \<longrightarrow>
        calculate_skills_match cs rs =
          real (card (set (map lower cs) \<inter> set (map lower rs))) / real (card (set (map lower rs)))
        \<and> calculate_skills_match cs rs \<le> 1)
   \<and> (rs \<noteq> [] \<longrightarrow> set (map lower rs) \<noteq> {})"
proof (intro conjI impI)
  assume "cs = [] \<or> rs = []"
  then show "calculate_skills_match cs rs = 0" by (rule skills_match_missing)
next
  assume "cs \<noteq> [] \<and> rs \<noteq> [] \<and> set (map lower rs) = {}"
  then show "calculate_skills_match cs rs = 1" by (simp add: calculate_skills_match_def)
next
  assume "cs \<noteq> [] \<and> rs \<noteq> [] \<and> set (map lower rs) \<noteq> {}"
  then show "calculate_skills_match cs rs =
          real (card (set (map lower cs) \<inter> set (map lower rs))) / real (card (set (map lower rs)))"
    by (simp add: skills_match_ratio)
next
  show "calculate_skills_match cs rs \<le> 1" using skills_match_bounds by blast
next
  assume "rs \<noteq> []"
  then show "set (map lower rs) \<noteq> {}" by simp
qed

theorem calculate_skills_match_cases_witness:
  "calculate_skills_match [] [''python'', ''sql'', ''java''] = 0
   \<and> calculate_skills_match [''Python'', ''AWS'', ''sql''] [''python'', ''sql'', ''java''] = 2 / 3"
proof -
  note T = calculate_skills_match_cases[of _ "[''python'', ''sql'', ''java'']"]
  have a: "calculate_skills_match [] [''python'', ''sql'', ''java''] = 0"
    using T[of "[]", THEN conjunct1] by simp
  have ne: "[''Python'', ''AWS'', ''sql''] \<noteq> [] \<and> [''python'', ''sql'', ''java''] \<noteq> []
      \<and> set (map lower [''python'', ''sql'', ''java'']) \<noteq> {}"
    by simp
  from T[of "[''Python'', ''AWS'', ''sql'']", THEN conjunct2, THEN conjunct2, THEN conjunct1, rule_format, OF ne]
  have "calculate_skills_match [''Python'', ''AWS'', ''sql''] [''python'', ''sql'', ''java''] =
          real (card (set (map lower [''Python'', ''AWS'', ''sql'']) \<inter> set (map lower [''python'', ''sql'', ''java''])))
          / real (card (set (map lower [''python'', ''sql'', ''java''])))"
    by (rule conjunct1)
  then have b: "calculate_skills_match [''Python'', ''AWS'', ''sql''] [''python'', ''sql'', ''java''] = 2 / 3"
    unfolding example_sets example_inter by simp
  from a b show ?thesis by (intro conjI)
qed

text \<open>
  Claim C8. For a non-empty required list, adding a skill to the candidate's skills never
  lowers the score when the skill (lowercased) is a required one, and leaves the score
  unchanged when it is not.
\<close>

theorem calculate_skills_match_monotone:
  assumes "rs \<noteq> []" "set cs' = insert s (set cs)"
  shows "(lower s \<in> set (map lower rs) \<longrightarrow> calculate_skills_match cs rs \<le> calculate_skills_match cs' rs)
       \<and> (lower s \<notin> set (map lower rs) \<longrightarrow> calculate_skills_match cs' rs = calculate_skills_match cs rs)"
proof -
  let ?R = "set (map lower rs)"
  let ?C = "set (map lower cs)"
  let ?C' = "set (map lower cs')"
  from assms(2) have ne': "cs' \<noteq> []" by auto
  from assms(2) have C': "?C' = insert (lower s) ?C" by simp
  have new: "calculate_skills_match cs' rs = real (card (?C' \<inter> ?R)) / real (card ?R)"
    by (rule skills_match_ratio[OF ne' assms(1)])
  have old: "calculate_skills_match cs rs = real (card (?C \<inter> ?R)) / real (card ?R)"
  proof (cases "cs = []")
    case True
    then show ?thesis by (simp add: skills_match_missing)
  next
    case False
    then show ?thesis by (rule skills_match_ratio[OF _ assms(1)])
  qed
  have mono: "card (?C \<inter> ?R) \<le> card (?C' \<inter> ?R)"
    unfolding C' by (rule card_mono) auto
  have up: "calculate_skills_match cs rs \<le> calculate_skills_match cs' rs"
    unfolding old new using mono by (simp add: divide_right_mono)
  have same: "lower s \<notin> ?R \<Longrightarrow> calculate_skills_match cs' rs = calculate_skills_match cs rs"
  proof -
    assume "lower s \<notin> ?R"
    then have "?C' \<inter> ?R = ?C \<inter> ?R" unfolding C' by auto
    then show ?thesis unfolding old new by simp
  qed
  from up same show ?thesis by blast
qed

theorem calculate_skills_match_monotone_witness:
  "calculate_skills_match [''aws''] [''python'', ''sql'', ''java'']
      \<le> calculate_skills_match [''sql'', ''aws''] [''python'', ''sql'', ''java'']
   \<and> calculate_skills_match [''Go'', ''aws''] [''python'', ''sql'', ''java'']
      = calculate_skills_match [''aws''] [''python'', ''sql'', ''java'']"
proof -
  have r: "[''python'', ''sql'', ''java''] \<noteq> []" by simp
  have rs: "set (map lower [''python'', ''sql'', ''java'']) = {''python'', ''sql'', ''java''}"
    by (rule example_sets(2))
  have lgo: "lower ''Go'' = ''go''" by code_simp
  have i1: "set [''sql'', ''aws''] = insert ''sql'' (set [''aws''])" by simp
  have i2: "set [''Go'', ''aws''] = insert ''Go'' (set [''aws''])" by simp
  have m1: "lower ''sql'' \<in> set (map lower [''python'', ''sql'', ''java''])"
    unfolding rs lower_sql by simp
  have m2: "lower ''Go'' \<notin> set (map lower [''python'', ''sql'', ''java''])"
    unfolding rs lgo by simp
  from calculate_skills_match_monotone[OF r i1, THEN conjunct1, rule_format, OF m1]
  have a: "calculate_skills_match [''aws''] [''python'', ''sql'', ''java'']
      \<le> calculate_skills_match [''sql'', ''aws''] [''python'', ''sql'', ''java'']" .
  from calculate_skills_match_monotone[OF r i2, THEN conjunct2, rule_format, OF m2]
  have b: "calculate_skills_match [''Go'', ''aws''] [''python'', ''sql'', ''java'']
      = calculate_skills_match [''aws''] [''python'', ''sql'', ''java'']" .
  from a b show ?thesis by (intro conjI)
qed

section \<open>Salary matcher\<close>

subsection \<open>The first match of the range pattern\<close>

lemma ms_Digit_none: "s = [] \<or> \<not> is_digit (hd s) \<Longrightarrow> ms Digit (s, c) = []"
  by (cases s) auto

lemma ms_Star_Digit_first:
  assumes "list_all is_digit d" "t = [] \<or> \<not> is_digit (hd t)"
  shows "\<exists>zs. ms (Star Digit) (d @ t, c) = (t, c) # zs"
  using assms(1)
proof (induction d)
  case Nil
  have nd: "ms Digit (t, c) = []" by (rule ms_Digit_none[OF assms(2)])
  show ?case by (subst ms.simps(8)) (simp add: nd del: ms.simps(3))
next
  case (Cons x d)
  then obtain zs where zs: "ms (Star Digit) (d @ t, c) = (t, c) # zs" by auto
  from Cons.prems have x: "ms Digit (x # d @ t, c) = [(d @ t, c)]" by simp
  show ?case by (subst ms.simps(8)) (simp add: x zs del: ms.simps(3))
qed

lemma ms_Plus_Digit_first:
  assumes "d \<noteq> []" "list_all is_digit d" "t = [] \<or> \<not> is_digit (hd t)"
  shows "\<exists>zs. ms (Plus Digit) (d @ t, c) = (t, c) # zs"
proof -
  from assms(1,2) obtain x d' where d: "d = x # d'" "is_digit x" "list_all is_digit d'"
    by (cases d) auto
  from ms_Star_Digit_first[OF d(3) assms(3)] obtain zs where
    "ms (Star Digit) (d' @ t, c) = (t, c) # zs" by blast
  moreover have "ms Digit (d @ t, c) = [(d' @ t, c)]" by (simp add: d)
  ultimately show ?thesis by (simp del: ms.simps(3))
qed

lemma ms_Grp_Plus_Digit_first:
  assumes "d \<noteq> []" "list_all is_digit d" "t = [] \<or> \<not> is_digit (hd t)"
  shows "\<exists>zs. ms (Grp n (Plus Digit)) (d @ t, c) = (t, c(n \<mapsto> d)) # zs"
proof -
  from ms_Plus_Digit_first[OF assms] obtain zs where
    "ms (Plus Digit) (d @ t, c) = (t, c) # zs" by blast
  then show ?thesis by simp
qed

lemma ms_Grp_Plus_Digit_none:
  "s = [] \<or> \<not> is_digit (hd s) \<Longrightarrow> ms (Grp n (Plus Digit)) (s, c) = []"
  by (simp add: ms_Digit_none del: ms.simps(3))

lemma ms_Lazy_then_first:
  assumes "list_all (\<lambda>x. \<not> is_digit x \<and> x \<noteq> CHR 0x0A) sep"
    and "\<And>s c. s = [] \<or> \<not> is_digit (hd s) \<Longrightarrow> ms R (s, c) = []"
    and "ms R (u, c) = y # ys"
  shows "\<exists>zs. ms (Cat (LazyStar Dot) R) (sep @ u, c) = y # zs"
  using assms(1)
proof (induction sep)
  case Nil
  show ?case using assms(3) by (simp, subst ms.simps(9)) simp
next
  case (Cons a sep)
  then obtain zs where zs: "ms (Cat (LazyStar Dot) R) (sep @ u, c) = y # zs" by auto
  from Cons.prems have a: "\<not> is_digit a" "a \<noteq> CHR 0x0A" by simp_all
  have none: "ms R (a # sep @ u, c) = []" by (rule assms(2)) (simp add: a)
  have "ms (LazyStar Dot) ((a # sep) @ u, c) = (a # sep @ u, c) # ms (LazyStar Dot) (sep @ u, c)"
    by (subst ms.simps(9)) (simp add: a)
  then have "ms (Cat (LazyStar Dot) R) ((a # sep) @ u, c)
      = ms R (a # sep @ u, c) @ ms (Cat (LazyStar Dot) R) (sep @ u, c)"
    by simp
  with none zs show ?case by simp
qed

lemma ms_Cat_Eps: "ms (Cat r Eps) st = ms r st"
proof -
  have "concat (map (ms Eps) xs) = xs" for xs :: "(string \<times> caps) list"
    by (induction xs) simp_all
  then show ?thesis by simp
qed

lemma salary_pattern_none:
  "s = [] \<or> \<not> is_digit (hd s) \<Longrightarrow> ms salary_pattern (s, c) = []"
  by (simp add: salary_pattern_def ms_Digit_none del: ms.simps(3))

lemma salary_pattern_first:
  assumes "d1 \<noteq> []" "list_all is_digit d1"
    "sep \<noteq> []" "list_all (\<lambda>x. \<not> is_digit x \<and> x \<noteq> CHR 0x0A) sep"
    "d2 \<noteq> []" "list_all is_digit d2" "rest = [] \<or> \<not> is_digit (hd rest)"
  shows "\<exists>zs. ms salary_pattern (d1 @ sep @ d2 @ rest, c) = (rest, c(1 \<mapsto> d1, 2 \<mapsto> d2)) # zs"
proof -
  let ?G2 = "Cat (Grp 2 (Plus Digit)) Eps"
  let ?X = "Cat (LazyStar Dot) ?G2"
  from assms(3,4) have nd: "sep @ d2 @ rest = [] \<or> \<not> is_digit (hd (sep @ d2 @ rest))"
    by (cases sep) simp_all
  from ms_Grp_Plus_Digit_first[OF assms(1,2) nd, of 1 c] obtain zs1 where
    g1: "ms (Grp 1 (Plus Digit)) (d1 @ sep @ d2 @ rest, c) = (sep @ d2 @ rest, c(1 \<mapsto> d1)) # zs1"
    by blast
  from ms_Grp_Plus_Digit_first[OF assms(5,6,7), of 2 "c(1 \<mapsto> d1)"] obtain zs2 where
    g2: "ms ?G2 (d2 @ rest, c(1 \<mapsto> d1)) = (rest, c(1 \<mapsto> d1, 2 \<mapsto> d2)) # zs2"
    unfolding ms_Cat_Eps by blast
  have none: "\<And>s c. s = [] \<or> \<not> is_digit (hd s) \<Longrightarrow> ms ?G2 (s, c) = []"
    unfolding ms_Cat_Eps by (rule ms_Grp_Plus_Digit_none)
  from ms_Lazy_then_first[OF assms(4) none g2] obtain zs3 where
    x: "ms ?X (sep @ d2 @ rest, c(1 \<mapsto> d1)) = (rest, c(1 \<mapsto> d1, 2 \<mapsto> d2)) # zs3"
    by blast
  have "ms salary_pattern (d1 @ sep @ d2 @ rest, c)
      = concat (map (ms ?X) (ms (Grp 1 (Plus Digit)) (d1 @ sep @ d2 @ rest, c)))"
    by (simp add: salary_pattern_def del: ms.simps(3,5,7,10))
  also have "\<dots> = ms ?X (sep @ d2 @ rest, c(1 \<mapsto> d1)) @ concat (map (ms ?X) zs1)"
    unfolding g1 by simp
  finally show ?thesis unfolding x by simp
qed

lemma re_search_skip:
  assumes "\<And>s c. s = [] \<or> \<not> is_digit (hd s) \<Longrightarrow> ms r (s, c) = []"
    "list_all (\<lambda>x. \<not> is_digit x) pre"
  shows "re_search r (pre @ s) = re_search r s"
  using assms(2)
proof (induction pre)
  case Nil
  show ?case by simp
next
  case (Cons a pre)
  then have a: "\<not> is_digit a" and IH: "re_search r (pre @ s) = re_search r s" by simp_all
  have "ms r (a # pre @ s, Map.empty) = []" by (rule assms(1)) (simp add: a)
  then have "re_search r ((a # pre) @ s) = re_search r (pre @ s)"
    by (subst re_search.simps) simp
  with IH show ?case by simp
qed

lemma re_search_first: "ms r (s, Map.empty) = (t, m) # zs \<Longrightarrow> re_search r s = Some m"
  by (subst re_search.simps) simp

lemma salary_pattern_two_runs:
  assumes "list_all (\<lambda>x. \<not> is_digit x) pre" "d1 \<noteq> []" "list_all is_digit d1"
    "sep \<noteq> []" "list_all (\<lambda>x. \<not> is_digit x \<and> x \<noteq> CHR 0x0A) sep"
    "d2 \<noteq> []" "list_all is_digit d2" "rest = [] \<or> \<not> is_digit (hd rest)"
  shows "re_search salary_pattern (pre @ d1 @ sep @ d2 @ rest) = Some [1 \<mapsto> d1, 2 \<mapsto> d2]"
proof -
  from salary_pattern_first[OF assms(2-8), of Map.empty] obtain zs where
    "ms salary_pattern (d1 @ sep @ d2 @ rest, Map.empty) = (rest, [1 \<mapsto> d1, 2 \<mapsto> d2]) # zs"
    by blast
  then have "re_search salary_pattern (d1 @ sep @ d2 @ rest) = Some [1 \<mapsto> d1, 2 \<mapsto> d2]"
    by (rule re_search_first)
  with re_search_skip[of salary_pattern pre "d1 @ sep @ d2 @ rest", OF salary_pattern_none assms(1)]
  show ?thesis by simp
qed

text \<open>
  On a range with two runs of digits on one line, \<open>calculate_salary_match\<close> reads the runs
  as minimum and maximum and the digits of the expectation as one integer, and compares.
\<close>

lemma calculate_salary_match_two_runs:
  assumes range: "filter (\<lambda>c. c \<noteq> CHR '','') job_range = pre @ d1 @ sep @ d2 @ rest"
    and "list_all (\<lambda>x. \<not> is_digit x) pre" "d1 \<noteq> []" "list_all is_digit d1"
    "sep \<noteq> []" "list_all (\<lambda>x. \<not> is_digit x \<and> x \<noteq> CHR 0x0A) sep"
    "d2 \<noteq> []" "list_all is_digit d2" "rest = [] \<or> \<not> is_digit (hd rest)"
    and cand: "filter is_digit candidate_expected \<noteq> []"
  shows "calculate_salary_match candidate_expected job_range =
     (let min_salary = int (decimal d1); max_salary = int (decimal d2);
          candidate_salary = int (decimal (filter is_digit candidate_expected))
      in if min_salary \<le> candidate_salary \<and> candidate_salary \<le> max_salary then 1
         else if candidate_salary < min_salary
         then real_of_int candidate_salary / real_of_int min_salary
         else real_of_int max_salary / real_of_int candidate_salary)"
proof -
  from cand have ne: "candidate_expected \<noteq> []" by auto
  from range assms(3) have ne2: "job_range \<noteq> []" by auto
  have s: "re_search salary_pattern (filter (\<lambda>c. c \<noteq> CHR '','') job_range) = Some [1 \<mapsto> d1, 2 \<mapsto> d2]"
    unfolding range by (rule salary_pattern_two_runs[OF assms(2-9)])
  have g1: "int_of_group (([1 \<mapsto> d1, 2 \<mapsto> d2] :: caps) 1) = Inr (int (decimal d1))"
    using assms(3,4) by (simp add: int_of_group_def py_int_def)
  have g2: "int_of_group (([1 \<mapsto> d1, 2 \<mapsto> d2] :: caps) 2) = Inr (int (decimal d2))"
    using assms(7,8) by (simp add: int_of_group_def py_int_def)
  have g3: "py_int (filter is_digit candidate_expected) = Inr (int (decimal (filter is_digit candidate_expected)))"
    using cand by (simp add: py_int_def list_all_iff)
  show ?thesis
    unfolding calculate_salary_match_def salary_try_def s option.case g1 g2 g3 sum.case
    using ne ne2 by (auto simp: Let_def py_truediv_def)
qed

text \<open>The two cases in which the code does fall back to 0.5: a range without any digit,
  and an expectation without any digit.\<close>

lemma calculate_salary_match_no_digit_in_range:
  assumes "list_all (\<lambda>x. \<not> is_digit x) (filter (\<lambda>c. c \<noteq> CHR '','') job_range)"
  shows "calculate_salary_match candidate_expected job_range = 0.5"
proof -
  have "ms salary_pattern ([], Map.empty) = []" by (rule salary_pattern_none) simp
  then have "re_search salary_pattern [] = None" by (subst re_search.simps) simp
  with re_search_skip[of salary_pattern "filter (\<lambda>c. c \<noteq> CHR '','') job_range" "[]",
      OF salary_pattern_none assms]
  have "re_search salary_pattern (filter (\<lambda>c. c \<noteq> CHR '','') job_range) = None" by simp
  then show ?thesis by (simp add: calculate_salary_match_def salary_try_def)
qed

lemma calculate_salary_match_no_digit_in_expectation:
  assumes "filter is_digit candidate_expected = []"
  shows "calculate_salary_match candidate_expected job_range = 0.5"
proof -
  have "py_int (filter is_digit candidate_expected) = Inl ValueError"
    by (simp add: assms py_int_def)
  then have "salary_try candidate_expected job_range = Inr None
      \<or> (\<exists>e. salary_try candidate_expected job_range = Inl e)"
    by (simp add: salary_try_def split: option.splits sum.splits)
  then show ?thesis by (auto simp: calculate_salary_match_def)
qed

text \<open>The example of the comment in the code, \<^verbatim>\<open>$80,000 - $120,000\<close>.\<close>

lemma calculate_salary_match_examples:
  "calculate_salary_match ''100000'' ''$80,000 - $120,000'' = 1"
  "calculate_salary_match ''60000'' ''$80,000 - $120,000'' = 3 / 4"
  "calculate_salary_match ''150000'' ''$80,000 - $120,000'' = 4 / 5"
proof -
  have r: "filter (\<lambda>c. c \<noteq> CHR '','') ''$80,000 - $120,000'' = ''$'' @ ''80000'' @ '' - $'' @ ''120000'' @ []"
    by simp
  have p: "list_all (\<lambda>x. \<not> is_digit x) ''$''" by (simp add: is_digit_def)
  have d1: "''80000'' \<noteq> []" "list_all is_digit ''80000''" by (simp_all add: is_digit_def)
  have sp: "'' - $'' \<noteq> []" "list_all (\<lambda>x. \<not> is_digit x \<and> x \<noteq> CHR 0x0A) '' - $''"
    by (simp_all add: is_digit_def)
  have d2: "''120000'' \<noteq> []" "list_all is_digit ''120000''" by (simp_all add: is_digit_def)
  have e: "([]::string) = [] \<or> \<not> is_digit (hd [])" by simp
  have v: "int (decimal ''80000'') = 80000" "int (decimal ''120000'') = 120000"
    by (simp_all add: decimal_def digit_val_def)
  have c1: "filter is_digit ''100000'' = ''100000''" "int (decimal ''100000'') = 100000"
    by (simp_all add: is_digit_def decimal_def digit_val_def)
  have c2: "filter is_digit ''60000'' = ''60000''" "int (decimal ''60000'') = 60000"
    by (simp_all add: is_digit_def decimal_def digit_val_def)
  have c3: "filter is_digit ''150000'' = ''150000''" "int (decimal ''150000'') = 150000"
    by (simp_all add: is_digit_def decimal_def digit_val_def)
  note T = calculate_salary_match_two_runs[OF r p d1 sp d2 e]
  show "calculate_salary_match ''100000'' ''$80,000 - $120,000'' = 1"
    using T[of "''100000''"] unfolding c1 v by simp
  show "calculate_salary_match ''60000'' ''$80,000 - $120,000'' = 3 / 4"
    using T[of "''60000''"] unfolding c2 v by simp
  show "calculate_salary_match ''150000'' ''$80,000 - $120,000'' = 4 / 5"
    using T[of "''150000''"] unfolding c3 v by simp
qed

subsection \<open>A range with a single run of digits\<close>

lemma strip_commas_80000: "filter (\<lambda>c. c \<noteq> CHR '','') ''80000'' = ''80000''"
  by simp

lemma digits_100000: "filter is_digit ''100000'' = ''100000''"
  by (simp add: is_digit_def)

lemma search_80000:
  "map_option (\<lambda>m. (m 1, m 2)) (re_search salary_pattern ''80000'') = Some (Some ''8000'', Some ''0'')"
  by code_simp

lemma int_8000: "py_int ''8000'' = Inr 8000"
  by (simp add: py_int_def decimal_def digit_val_def is_digit_def)
lemma int_0: "py_int ''0'' = Inr 0"
  by (simp add: py_int_def decimal_def digit_val_def is_digit_def)
lemma int_100000: "py_int ''100000'' = Inr 100000"
  by (simp add: py_int_def decimal_def digit_val_def is_digit_def)

text \<open>
  Claim C4, at the input \<open>calculate_salary_match("100000", "80000")\<close>. The range string
  holds a single run of digits, so the claim asks for 0.5. The pattern
  \<^verbatim>\<open>(\d+).*?(\d+)\<close> still matches: the first group gives up its last digit to the second,
  the range is read as 8000 to 0, and the result is 0 / 100000.
\<close>

theorem calculate_salary_match_single_run:
  "calculate_salary_match ''100000'' ''80000'' = 0"
proof -
  obtain m where m: "re_search salary_pattern ''80000'' = Some m" "m 1 = Some ''8000''" "m 2 = Some ''0''"
    using search_80000
    by (cases "re_search salary_pattern ''80000''")
       (simp_all only: option.map option.distinct option.inject prod.inject)
  have g1: "int_of_group (m 1) = Inr 8000" by (simp only: m(2) int_of_group_def option.case int_8000)
  have g2: "int_of_group (m 2) = Inr 0" by (simp only: m(3) int_of_group_def option.case int_0)
  have "salary_try ''100000'' ''80000'' = Inr (Some 0)"
    unfolding salary_try_def strip_commas_80000 digits_100000 m(1) option.case g1 g2 int_100000
    by (simp add: py_truediv_def)
  then show ?thesis by (simp add: calculate_salary_match_def)
qed

section \<open>Aggregation and ranking\<close>

subsection \<open>Rounding\<close>




subsection \<open>Component scores\<close>




subsection \<open>Sorting and truncation\<close>










subsection \<open>The loop over the candidates\<close>











subsection \<open>A worked example\<close>













subsection \<open>Ranking\<close>







subsection \<open>Percentages\<close>









subsection \<open>Bounds of the percentages\<close>







end
